theory Spec2Isabelle
  imports Main
begin

section \<open>Errors, as Go's \<open>fmt.Errorf\<close> builds them\<close>

text \<open>
  A Go \<open>error\<close> is a value with a message (\<open>Error()\<close>) and, when it was built by
  \<open>fmt.Errorf\<close> with the verb \<open>%w\<close>, the cause it wraps. The verb \<open>%v\<close>
  only copies the cause's message into the new message. The errors of the SDK are
  arbitrary values of this type.
\<close>

datatype goerror =
    ErrorString string
  | WrapError string goerror

fun Error :: "goerror \<Rightarrow> string" where
  "Error (ErrorString s) = s"
| "Error (WrapError msg err) = msg"

text \<open>\<open>fmt.Errorf(prefix + "%v", err)\<close>\<close>
definition Errorf_v :: "string \<Rightarrow> goerror \<Rightarrow> goerror" where
  "Errorf_v prefix err = ErrorString (prefix @ Error err)"

text \<open>\<open>fmt.Errorf(prefix + "%w", err)\<close>\<close>
definition Errorf_w :: "string \<Rightarrow> goerror \<Rightarrow> goerror" where
  "Errorf_w prefix err = WrapError (prefix @ Error err) err"

section \<open>Data of the program and of the SDK values it handles\<close>

definition KustoURL :: string where
  "KustoURL = ''https://ravpateadx.eastus.kusto.windows.net''"

text \<open>
  \<open>type AuthType int\<close> with \<open>BearerToken = iota\<close> and \<open>Interactive\<close> after it. No
  arithmetic is done on an \<open>AuthType\<close>, so the width of Go's \<open>int\<close> plays no role.
\<close>
type_synonym AuthType = int

definition BearerToken :: AuthType where
  "BearerToken = 0"

definition Interactive :: AuthType where
  "Interactive = 1"

text \<open>The method \<open>func (a AuthType) String() string\<close>.\<close>
definition AuthType_String :: "AuthType \<Rightarrow> string" where
  "AuthType_String a =
     (if a = BearerToken then ''BearerToken''
      else if a = Interactive then ''Interactive''
      else ''Unknown'')"

text \<open>\<open>azcore.AccessToken\<close>: only its field \<open>Token\<close> is read.\<close>
datatype AccessToken = AccessToken (Token: string)

text \<open>
  \<open>azkustodata.ConnectionStringBuilder\<close>: the data source given to
  \<open>NewConnectionStringBuilder\<close> and the authentication chosen by
  \<open>WitAadUserToken\<close> or \<open>WithDefaultAzureCredential\<close>.
\<close>
datatype kcsb_auth = NoAuth | AadUserToken string | DefaultAzureCredential

record ConnectionStringBuilder =
  DataSource :: string
  Authentication :: kcsb_auth

definition NewConnectionStringBuilder :: "string \<Rightarrow> ConnectionStringBuilder" where
  "NewConnectionStringBuilder connStr = \<lparr>DataSource = connStr, Authentication = NoAuth\<rparr>"

definition WitAadUserToken :: "string \<Rightarrow> ConnectionStringBuilder \<Rightarrow> ConnectionStringBuilder" where
  "WitAadUserToken tok kcsb = kcsb\<lparr>Authentication := AadUserToken tok\<rparr>"

definition WithDefaultAzureCredential :: "ConnectionStringBuilder \<Rightarrow> ConnectionStringBuilder" where
  "WithDefaultAzureCredential kcsb = kcsb\<lparr>Authentication := DefaultAzureCredential\<rparr>"

text \<open>The handles: \<open>*azkustodata.Client\<close> and \<open>*azkustoingest.Ingestion\<close>.\<close>
datatype Client = Client ConnectionStringBuilder

datatype Ingestion = Ingestion ConnectionStringBuilder string string

datatype FileOption = DeleteSource | FlushImmediately | ReportResultToTable

text \<open>
  The status returned by \<open>FromFile\<close>: \<open>Wait\<close> is the value received from the channel
  \<open>status.Wait(ctx)\<close>, \<open>None\<close> for Go's \<open>nil\<close>.
\<close>
datatype Result = Result (Wait: "goerror option")

text \<open>
  A row of the query's result, as \<open>log.Println\<close> shows it, and the values received from
  the channels \<open>Rows()\<close> and \<open>Tables()\<close>: each carries \<open>Err()\<close> (\<open>None\<close> for \<open>nil\<close>)
  beside its payload. \<open>Tables\<close> is the first value received from \<open>dataset.Tables()\<close>.
\<close>
type_synonym Row = "string list"

datatype RowResult = RowResult (RowErr: "goerror option") (Row: Row)

datatype TableResult = TableResult (TableErr: "goerror option") (Rows: "RowResult list")

datatype Dataset = Dataset (Tables: TableResult)

section \<open>Effects\<close>

text \<open>
  Every call that leaves the program is an event of the run's trace, with its arguments.
  The file mode \<open>0644\<close> is 420.
\<close>

datatype logarg = Str string | RowArg Row

datatype event =
    Log_Println "logarg list"
  | NewDeviceCodeCredential
  | GetToken "string list"
  | Azkustodata_New ConnectionStringBuilder
  | Client_Close
  | Azkustoingest_New ConnectionStringBuilder string string
  | Ingestor_Close
  | Time_Now
  | Os_WriteFile string string nat
  | FromFile Ingestion string "FileOption list"
  | Status_Wait
  | IterativeQuery Client string string
  | Dataset_Close
  | Recv_Tables
  | Recv_Row RowResult

text \<open>
  What the outside answers to each call: \<open>None\<close> is a \<open>nil\<close> error,
  \<open>Inl err\<close> the pair \<open>(nil, err)\<close>, \<open>Inr v\<close> the pair \<open>(v, nil)\<close>.
  \<open>sdk_time_Now\<close> is \<open>time.Now().UTC().Format(time.RFC3339)\<close>.
\<close>
record world =
  sdk_NewDeviceCodeCredential :: "goerror option"
  sdk_GetToken :: "string list \<Rightarrow> goerror + AccessToken"
  sdk_azkustodata_New :: "ConnectionStringBuilder \<Rightarrow> goerror option"
  sdk_azkustoingest_New :: "ConnectionStringBuilder \<Rightarrow> string \<Rightarrow> string \<Rightarrow> goerror option"
  sdk_time_Now :: string
  sdk_os_WriteFile :: "string \<Rightarrow> string \<Rightarrow> nat \<Rightarrow> goerror option"
  sdk_FromFile :: "Ingestion \<Rightarrow> string \<Rightarrow> FileOption list \<Rightarrow> goerror + Result"
  sdk_IterativeQuery :: "Client \<Rightarrow> string \<Rightarrow> string \<Rightarrow> goerror + Dataset"

text \<open>
  A computation is the list of its events, in order, with its result. \<open>emit\<close> puts
  events before a computation; \<open>deferred\<close> is Go's \<open>defer\<close>: the call runs when the rest
  of the function has returned, on whichever path.
\<close>
type_synonym 'a io = "event list \<times> 'a"

definition emit :: "event list \<Rightarrow> 'a io \<Rightarrow> 'a io" where
  "emit evs m = (evs @ fst m, snd m)"

definition deferred :: "event \<Rightarrow> 'a io \<Rightarrow> 'a io" where
  "deferred ev m = (fst m @ [ev], snd m)"

section \<open>The functions of \<open>main.go\<close>\<close>

definition getAzBearerToken :: "world \<Rightarrow> (goerror + AccessToken) io" where
  "getAzBearerToken w =
     emit [NewDeviceCodeCredential]
       (case sdk_NewDeviceCodeCredential w of
          Some err \<Rightarrow> ([], Inl (Errorf_v ''failed to obtain a credential: '' err))
        | None \<Rightarrow>
            emit [GetToken [KustoURL @ ''/.default'']]
              (case sdk_GetToken w [KustoURL @ ''/.default''] of
                 Inl err \<Rightarrow> ([], Inl (Errorf_v ''failed to get a token: '' err))
               | Inr token \<Rightarrow> ([], Inr token)))"

text \<open>
  The \<open>switch\<close> of \<open>getKustoConnStr\<close>. In its default case \<open>fmt.Sprint(authType)\<close> is
  \<open>authType.String()\<close>, \<open>AuthType\<close> having that method, and the format given to
  \<open>fmt.Errorf\<close> holds no verb.
\<close>
definition getKustoConnStr :: "world \<Rightarrow> AuthType \<Rightarrow> (goerror + ConnectionStringBuilder) io" where
  "getKustoConnStr w authType =
     (if authType = BearerToken then
        (case getAzBearerToken w of
           (t, Inl err) \<Rightarrow> (t, Inl err)
         | (t, Inr accessToken) \<Rightarrow>
             (t, Inr (WitAadUserToken (Token accessToken) (NewConnectionStringBuilder KustoURL))))
      else if authType = Interactive then
        ([], Inr (WithDefaultAzureCredential (NewConnectionStringBuilder KustoURL)))
      else
        ([], Inl (ErrorString (''invalid auth type: '' @ AuthType_String authType))))"


text \<open>
  The \<open>fmt.Sprintf\<close> of \<open>ingestData\<close>, applied to the formatted current time.
\<close>
definition ingestQuery :: "string \<Rightarrow> string" where
  "ingestQuery currentTime =
     ''.ingest inline into table ravpateTable <| '' @ currentTime @ '',Sql,Isgood''"

definition ingestOptions :: "FileOption list" where
  "ingestOptions = [DeleteSource, FlushImmediately, ReportResultToTable]"

definition ingestData :: "world \<Rightarrow> ConnectionStringBuilder \<Rightarrow> (goerror option) io" where
  "ingestData w kcsb =
     emit [Azkustoingest_New kcsb ''ArcSqlTelemetry'' ''ravpateTable'']
       (case sdk_azkustoingest_New w kcsb ''ArcSqlTelemetry'' ''ravpateTable'' of
          Some err \<Rightarrow> ([], Some (Errorf_w ''error creating ingestor: '' err))
        | None \<Rightarrow>
            (let ingestor = Ingestion kcsb ''ArcSqlTelemetry'' ''ravpateTable'' in
             deferred Ingestor_Close
               (let q = ingestQuery (sdk_time_Now w);
                    _ = sdk_os_WriteFile w ''ingest.kql'' q 420
                in
                emit [Time_Now,
                      Log_Println [Str ''Writing ingest query to ingest.kql...''],
                      Log_Println [Str [CHR 0x09], Str q],
                      Os_WriteFile ''ingest.kql'' q 420,
                      Log_Println [Str ''Running ingest query now...''],
                      FromFile ingestor ''./ingest.kql'' ingestOptions]
                  (case sdk_FromFile w ingestor ''./ingest.kql'' ingestOptions of
                     Inl err \<Rightarrow> ([], Some (Errorf_w ''error ingesting data: '' err))
                   | Inr status \<Rightarrow>
                       emit [Status_Wait]
                         (case Wait status of
                            Some err \<Rightarrow> ([], Some (Errorf_w ''error waiting for ingest: '' err))
                          | None \<Rightarrow> ([], None))))))"

text \<open>
  The loop \<open>for rowResult := range primaryResult.Table().Rows()\<close> of \<open>getData\<close>, over
  the values the channel delivers: each value received is an event, and so is each row
  logged.
\<close>
fun getData_rows :: "RowResult list \<Rightarrow> (goerror option) io" where
  "getData_rows [] = ([], None)"
| "getData_rows (rowResult # rest) =
     emit [Recv_Row rowResult]
       (case RowErr rowResult of
          Some err \<Rightarrow> ([], Some (Errorf_w ''error getting row result: '' err))
        | None \<Rightarrow> emit [Log_Println [RowArg (Row rowResult)]] (getData_rows rest))"

definition getData :: "world \<Rightarrow> Client \<Rightarrow> (goerror option) io" where
  "getData w client =
     emit [IterativeQuery client ''ArcSqlTelemetry''
             ''ravpateTable | order by Timestamp desc | take 5'']
       (case sdk_IterativeQuery w client ''ArcSqlTelemetry''
               ''ravpateTable | order by Timestamp desc | take 5'' of
          Inl err \<Rightarrow> ([], Some (Errorf_w ''error querying dataset: '' err))
        | Inr dataset \<Rightarrow>
            deferred Dataset_Close
              (emit [Recv_Tables]
                 (let primaryResult = Tables dataset in
                  case TableErr primaryResult of
                    Some err \<Rightarrow> ([], Some (Errorf_w ''error getting primary result: '' err))
                  | None \<Rightarrow>
                      emit [Log_Println [Str ''Results:''], Log_Println []]
                        (getData_rows (Rows primaryResult)))))"



section \<open>Observing a trace\<close>

text \<open>
  The stage of the run an event belongs to: 1 for building the connection descriptor
  (\<open>getKustoConnStr\<close>), 2 for constructing the query client (\<open>getKustoClient\<close>), 3 for
  the ingestion (\<open>ingestData\<close>), 4 for the query (\<open>getData\<close>). Log lines and the
  deferred close of the query client belong to \<open>main\<close> itself.
\<close>
fun stage_of :: "event \<Rightarrow> nat option" where
  "stage_of NewDeviceCodeCredential = Some 1"
| "stage_of (GetToken scopes) = Some 1"
| "stage_of (Azkustodata_New kcsb) = Some 2"
| "stage_of (Azkustoingest_New kcsb db tbl) = Some 3"
| "stage_of Time_Now = Some 3"
| "stage_of (Os_WriteFile name data perm) = Some 3"
| "stage_of (FromFile ingestor path opts) = Some 3"
| "stage_of Status_Wait = Some 3"
| "stage_of Ingestor_Close = Some 3"
| "stage_of (IterativeQuery client db q) = Some 4"
| "stage_of Recv_Tables = Some 4"
| "stage_of (Recv_Row rowResult) = Some 4"
| "stage_of Dataset_Close = Some 4"
| "stage_of (Log_Println args) = None"
| "stage_of Client_Close = None"

definition stages :: "event list \<Rightarrow> nat list" where
  "stages t = List.map_filter stage_of t"

text \<open>The submissions to the ingestion service: path and options of each \<open>FromFile\<close>.\<close>
fun submission :: "event \<Rightarrow> (string \<times> FileOption list) option" where
  "submission (FromFile ingestor path opts) = Some (path, opts)"
| "submission _ = None"

text \<open>The data of each file written.\<close>
fun staged :: "event \<Rightarrow> string option" where
  "staged (Os_WriteFile name data perm) = Some data"
| "staged _ = None"

text \<open>The values received from the channel of rows, and the rows logged.\<close>
fun received_row :: "event \<Rightarrow> RowResult option" where
  "received_row (Recv_Row rowResult) = Some rowResult"
| "received_row _ = None"

fun logged_row :: "event \<Rightarrow> Row option" where
  "logged_row (Log_Println [RowArg row]) = Some row"
| "logged_row _ = None"

text \<open>The calls of a trace: every event but the log lines.\<close>
fun is_log :: "event \<Rightarrow> bool" where
  "is_log (Log_Println args) = True"
| "is_log _ = False"

definition calls :: "event list \<Rightarrow> event list" where
  "calls t = filter (\<lambda>ev. \<not> is_log ev) t"

text \<open>A text split at its commas, as \<open>strings.Split(s, ",")\<close> does.\<close>
fun comma_fields :: "string \<Rightarrow> string list" where
  "comma_fields [] = [[]]"
| "comma_fields (c # cs) =
     (if c = CHR '','' then [] # comma_fields cs
      else (case comma_fields cs of [] \<Rightarrow> [[c]] | f # fs \<Rightarrow> (c # f) # fs))"

definition inline_command :: string where
  "inline_command = ''.ingest inline into table ravpateTable <| ''"

section \<open>Sample answers of the outside\<close>

definition err_sdk :: goerror where
  "err_sdk = ErrorString ''boom''"

definition row_new :: Row where
  "row_new = [''2024-01-01T00:00:00Z'', ''Sql'', ''Isgood'']"

definition row_old :: Row where
  "row_old = [''2023-12-31T00:00:00Z'', ''Sql'', ''Isgood'']"

text \<open>Every call succeeds and the query delivers two rows.\<close>
definition world_ok :: world where
  "world_ok =
     \<lparr>sdk_NewDeviceCodeCredential = None,
      sdk_GetToken = (\<lambda>scopes. Inr (AccessToken ''tok'')),
      sdk_azkustodata_New = (\<lambda>kcsb. None),
      sdk_azkustoingest_New = (\<lambda>kcsb db tbl. None),
      sdk_time_Now = ''2024-01-01T00:00:00Z'',
      sdk_os_WriteFile = (\<lambda>name data perm. None),
      sdk_FromFile = (\<lambda>ingestor path opts. Inr (Result None)),
      sdk_IterativeQuery = (\<lambda>client db q.
         Inr (Dataset (TableResult None [RowResult None row_new, RowResult None row_old])))\<rparr>"

definition kcsb_tok :: ConnectionStringBuilder where
  "kcsb_tok = WitAadUserToken ''tok'' (NewConnectionStringBuilder KustoURL)"

text \<open>The same, but for one call that fails.\<close>
definition world_login_fails :: world where
  "world_login_fails = world_ok\<lparr>sdk_NewDeviceCodeCredential := Some err_sdk\<rparr>"

definition world_ingest_rejected :: world where
  "world_ingest_rejected = world_ok\<lparr>sdk_FromFile := (\<lambda>ingestor path opts. Inl err_sdk)\<rparr>"

definition world_wait_fails :: world where
  "world_wait_fails =
     world_ok\<lparr>sdk_FromFile := (\<lambda>ingestor path opts. Inr (Result (Some err_sdk)))\<rparr>"

definition world_write_fails :: world where
  "world_write_fails = world_ok\<lparr>sdk_os_WriteFile := (\<lambda>name data perm. Some err_sdk)\<rparr>"

definition world_row_fails :: world where
  "world_row_fails =
     world_ok\<lparr>sdk_IterativeQuery := (\<lambda>client db q.
        Inr (Dataset (TableResult None
          [RowResult None row_new, RowResult (Some err_sdk) [], RowResult None row_old])))\<rparr>"


section \<open>Facts about traces\<close>

lemma stages_simps [simp]:
  "stages [] = []"
  "stages (ev # t) = (case stage_of ev of None \<Rightarrow> stages t | Some k \<Rightarrow> k # stages t)"
  "stages (t @ u) = stages t @ stages u"
  by (simp_all add: stages_def List.map_filter_def split: option.splits)

lemma map_filter_append:
  "List.map_filter f (xs @ ys) = List.map_filter f xs @ List.map_filter f ys"
  by (simp add: List.map_filter_def)


lemma getAzBearerToken_world_ok:
  "getAzBearerToken world_ok =
     ([NewDeviceCodeCredential, GetToken [KustoURL @ ''/.default'']], Inr (AccessToken ''tok''))"
  by (simp add: getAzBearerToken_def world_ok_def emit_def)

section \<open>The authentication mode and the connection descriptor\<close>

text \<open>
  C10: for every \<open>AuthType\<close> value other than \<open>BearerToken\<close> and \<open>Interactive\<close>,
  \<open>getKustoConnStr\<close> returns no descriptor but an error whose message is
  "invalid auth type: Unknown", without a single call to the outside (so no credential
  is acquired), and \<open>String\<close> returns "Unknown".
\<close>
theorem getKustoConnStr_invalid_auth_type:
  assumes "authType \<noteq> BearerToken" and "authType \<noteq> Interactive"
  shows "getKustoConnStr w authType = ([], Inl (ErrorString ''invalid auth type: Unknown''))
       \<and> AuthType_String authType = ''Unknown''"
  using assms by (simp add: getKustoConnStr_def AuthType_String_def)

theorem getKustoConnStr_invalid_auth_type_witness:
  "(2::int) \<noteq> BearerToken \<and> (2::int) \<noteq> Interactive
   \<and> getKustoConnStr world_ok 2 = ([], Inl (ErrorString ''invalid auth type: Unknown''))
   \<and> AuthType_String 2 = ''Unknown''"
proof -
  have a: "(2::int) \<noteq> BearerToken" by (simp add: BearerToken_def)
  have b: "(2::int) \<noteq> Interactive" by (simp add: Interactive_def)
  show ?thesis
    using a b getKustoConnStr_invalid_auth_type [OF a b, of world_ok] by simp
qed

text \<open>
  C7: in the \<open>BearerToken\<close> mode the only token request carries the single scope
  \<open>https://ravpateadx.eastus.kusto.windows.net/.default\<close>, the cluster URL followed by
  \<open>/.default\<close>. The login is attempted once and the token is requested at most once: a
  failed login returns at once an error with the cause's message, before any token
  request, and a failed token request returns an error with the cause's message.
  \<open>getKustoConnStr\<close> hands either error to its caller as it is.
\<close>
theorem getAzBearerToken_scope_no_retry:
  "fst (getAzBearerToken w) =
     (if sdk_NewDeviceCodeCredential w = None
      then [NewDeviceCodeCredential,
            GetToken [''https://ravpateadx.eastus.kusto.windows.net/.default'']]
      else [NewDeviceCodeCredential])
   \<and> (\<forall>err. sdk_NewDeviceCodeCredential w = Some err \<longrightarrow>
         snd (getAzBearerToken w) =
           Inl (ErrorString (''failed to obtain a credential: '' @ Error err)))
   \<and> (\<forall>err. sdk_NewDeviceCodeCredential w = None
            \<and> sdk_GetToken w [KustoURL @ ''/.default''] = Inl err \<longrightarrow>
         snd (getAzBearerToken w) =
           Inl (ErrorString (''failed to get a token: '' @ Error err)))
   \<and> (\<forall>err. snd (getAzBearerToken w) = Inl err \<longrightarrow>
         getKustoConnStr w BearerToken = (fst (getAzBearerToken w), Inl err))"
  by (auto simp: getAzBearerToken_def getKustoConnStr_def emit_def Errorf_v_def KustoURL_def
      split: option.splits sum.splits prod.splits)

theorem getAzBearerToken_scope_no_retry_witness:
  "fst (getAzBearerToken world_login_fails) = [NewDeviceCodeCredential]
   \<and> snd (getAzBearerToken world_login_fails) =
       Inl (ErrorString ''failed to obtain a credential: boom'')
   \<and> getKustoConnStr world_login_fails BearerToken =
       ([NewDeviceCodeCredential], Inl (ErrorString ''failed to obtain a credential: boom''))"
  using getAzBearerToken_scope_no_retry [of world_login_fails]
  by (simp add: world_login_fails_def world_ok_def err_sdk_def)

text \<open>
  C8: building the descriptor makes no call to the outside of its own and cannot fail
  once the credential is there. With a token obtained, \<open>getKustoConnStr BearerToken\<close>
  returns the descriptor for the cluster URL with that token, and its events are those
  of the token acquisition alone; \<open>getKustoConnStr Interactive\<close> returns the descriptor
  with the default credential and has no event at all; and an error of
  \<open>getKustoConnStr BearerToken\<close> is always the error of the token acquisition.
\<close>
theorem getKustoConnStr_build_total:
  "(\<forall>tok. snd (getAzBearerToken w) = Inr tok \<longrightarrow>
      getKustoConnStr w BearerToken =
        (fst (getAzBearerToken w),
         Inr \<lparr>DataSource = KustoURL, Authentication = AadUserToken (Token tok)\<rparr>))
   \<and> getKustoConnStr w Interactive =
        ([], Inr \<lparr>DataSource = KustoURL, Authentication = DefaultAzureCredential\<rparr>)
   \<and> (\<forall>err. snd (getKustoConnStr w BearerToken) = Inl err \<longrightarrow>
        snd (getAzBearerToken w) = Inl err)"
  by (auto simp: getKustoConnStr_def BearerToken_def Interactive_def WitAadUserToken_def
        WithDefaultAzureCredential_def NewConnectionStringBuilder_def
      split: prod.splits sum.splits)

theorem getKustoConnStr_build_total_witness:
  "snd (getAzBearerToken world_ok) = Inr (AccessToken ''tok'')
   \<and> getKustoConnStr world_ok BearerToken =
       ([NewDeviceCodeCredential, GetToken [KustoURL @ ''/.default'']],
        Inr \<lparr>DataSource = KustoURL, Authentication = AadUserToken ''tok''\<rparr>)"
  using getKustoConnStr_build_total [of world_ok]
  by (simp add: getAzBearerToken_world_ok)

section \<open>Ingestion\<close>

lemma comma_fields_append_comma:
  "CHR '','' \<notin> set s \<Longrightarrow> comma_fields (s @ CHR '','' # rest) = s # comma_fields rest"
  by (induction s) auto

lemma comma_fields_Sql_Isgood: "comma_fields ''Sql,Isgood'' = [''Sql'', ''Isgood'']"
  by simp

text \<open>
  C1, as the specification states it, fails: the text that \<open>ingestData\<close> stages has
  three comma-separated fields, not four; no boolean flag is written. Here for the
  time \<open>2024-01-01T00:00:00Z\<close>.
\<close>
theorem ingestData_payload_counterexample:
  "List.map_filter staged (fst (ingestData world_ok kcsb_tok)) =
     [''.ingest inline into table ravpateTable <| 2024-01-01T00:00:00Z,Sql,Isgood'']
   \<and> comma_fields ''.ingest inline into table ravpateTable <| 2024-01-01T00:00:00Z,Sql,Isgood'' =
     [''.ingest inline into table ravpateTable <| 2024-01-01T00:00:00Z'', ''Sql'', ''Isgood'']
   \<and> length (comma_fields
        ''.ingest inline into table ravpateTable <| 2024-01-01T00:00:00Z,Sql,Isgood'') \<noteq> 4"
  by (simp add: ingestData_def world_ok_def emit_def deferred_def Let_def ingestQuery_def
      List.map_filter_simps)

text \<open>
  C1, amended: once the ingestion client is constructed, \<open>ingestData\<close> stages exactly one
  text, the command \<open>.ingest inline into table ravpateTable <| \<close> followed by three
  comma-separated values in the column order Timestamp, FirstName, LastName: the
  formatted current time first, then \<open>Sql\<close>, then \<open>Isgood\<close>. There is no fourth value.
  (The formatted time holds no comma.)
\<close>
theorem ingestData_payload:
  assumes "sdk_azkustoingest_New w kcsb ''ArcSqlTelemetry'' ''ravpateTable'' = None"
    and "CHR '','' \<notin> set (sdk_time_Now w)"
  shows "List.map_filter staged (fst (ingestData w kcsb)) =
           [inline_command @ sdk_time_Now w @ '',Sql,Isgood'']
       \<and> comma_fields (inline_command @ sdk_time_Now w @ '',Sql,Isgood'') =
           [inline_command @ sdk_time_Now w, ''Sql'', ''Isgood'']
       \<and> comma_fields (sdk_time_Now w @ '',Sql,Isgood'') = [sdk_time_Now w, ''Sql'', ''Isgood'']"
proof -
  have h1: "List.map_filter staged (fst (ingestData w kcsb)) =
      [inline_command @ sdk_time_Now w @ '',Sql,Isgood'']"
    using assms(1)
    by (auto simp: ingestData_def emit_def deferred_def Let_def ingestQuery_def
        inline_command_def List.map_filter_simps split: sum.splits option.splits)
  have "CHR '','' \<notin> set (inline_command @ sdk_time_Now w)"
    using assms(2) by (simp add: inline_command_def)
  then have "comma_fields ((inline_command @ sdk_time_Now w) @ CHR '','' # ''Sql,Isgood'') =
      (inline_command @ sdk_time_Now w) # comma_fields ''Sql,Isgood''"
    by (rule comma_fields_append_comma)
  then have h2: "comma_fields (inline_command @ sdk_time_Now w @ '',Sql,Isgood'') =
      [inline_command @ sdk_time_Now w, ''Sql'', ''Isgood'']"
    by (simp add: comma_fields_Sql_Isgood)
  have "comma_fields (sdk_time_Now w @ CHR '','' # ''Sql,Isgood'') =
      sdk_time_Now w # comma_fields ''Sql,Isgood''"
    using assms(2) by (rule comma_fields_append_comma)
  then have h3: "comma_fields (sdk_time_Now w @ '',Sql,Isgood'') =
      [sdk_time_Now w, ''Sql'', ''Isgood'']"
    by (simp add: comma_fields_Sql_Isgood)
  from h1 h2 h3 show ?thesis by simp
qed

theorem ingestData_payload_witness:
  "List.map_filter staged (fst (ingestData world_ok kcsb_tok)) =
     [inline_command @ ''2024-01-01T00:00:00Z,Sql,Isgood'']
   \<and> comma_fields ''2024-01-01T00:00:00Z,Sql,Isgood'' =
     [''2024-01-01T00:00:00Z'', ''Sql'', ''Isgood'']"
proof -
  have a: "sdk_azkustoingest_New world_ok kcsb_tok ''ArcSqlTelemetry'' ''ravpateTable'' = None"
    by (simp add: world_ok_def)
  have b: "CHR '','' \<notin> set (sdk_time_Now world_ok)"
    by (simp add: world_ok_def)
  have c: "sdk_time_Now world_ok = ''2024-01-01T00:00:00Z''"
    by (simp add: world_ok_def)
  show ?thesis
    using ingestData_payload [OF a b] unfolding c by simp
qed

text \<open>
  C2: \<open>ingestData\<close> returns \<open>nil\<close> exactly when the ingestion client was constructed, the
  submission was accepted and the value received from the status channel was \<open>nil\<close>; it
  has then waited for that status. When the client cannot be constructed, when the
  submission is rejected, and when the status received is an error, it returns an error
  that wraps that cause.
\<close>
theorem ingestData_outcome:
  fixes w :: world and kcsb :: ConnectionStringBuilder
  defines "created \<equiv> sdk_azkustoingest_New w kcsb ''ArcSqlTelemetry'' ''ravpateTable''"
    and "submitted \<equiv> sdk_FromFile w (Ingestion kcsb ''ArcSqlTelemetry'' ''ravpateTable'')
                        ''./ingest.kql'' ingestOptions"
  shows
  "(snd (ingestData w kcsb) = None \<longleftrightarrow>
      created = None \<and> (\<exists>status. submitted = Inr status \<and> Wait status = None))
   \<and> (snd (ingestData w kcsb) = None \<longrightarrow> Status_Wait \<in> set (fst (ingestData w kcsb)))
   \<and> (\<forall>err. created = Some err \<longrightarrow>
         snd (ingestData w kcsb) =
           Some (WrapError (''error creating ingestor: '' @ Error err) err))
   \<and> (\<forall>err. created = None \<and> submitted = Inl err \<longrightarrow>
         snd (ingestData w kcsb) =
           Some (WrapError (''error ingesting data: '' @ Error err) err))
   \<and> (\<forall>status err. created = None \<and> submitted = Inr status \<and> Wait status = Some err \<longrightarrow>
         snd (ingestData w kcsb) =
           Some (WrapError (''error waiting for ingest: '' @ Error err) err))"
  unfolding created_def submitted_def
  by (auto simp: ingestData_def emit_def deferred_def Errorf_w_def Let_def
       split: option.splits sum.splits)

theorem ingestData_outcome_witness:
  "snd (ingestData world_wait_fails kcsb_tok) =
     Some (WrapError ''error waiting for ingest: boom'' (ErrorString ''boom''))
   \<and> snd (ingestData world_wait_fails kcsb_tok) \<noteq> None"
  using ingestData_outcome [of world_wait_fails kcsb_tok]
  by (simp add: world_wait_fails_def world_ok_def err_sdk_def)

text \<open>
  C6: \<open>ingestData\<close> makes one submission when the ingestion client was constructed and
  none otherwise, and the submission carries exactly the three options
  \<open>DeleteSource\<close>, \<open>FlushImmediately\<close> and \<open>ReportResultToTable\<close>, for the path
  \<open>./ingest.kql\<close>.
\<close>
theorem ingestData_options:
  "List.map_filter submission (fst (ingestData w kcsb)) =
     (if sdk_azkustoingest_New w kcsb ''ArcSqlTelemetry'' ''ravpateTable'' = None
      then [(''./ingest.kql'', [DeleteSource, FlushImmediately, ReportResultToTable])]
      else [])"
  by (auto simp: ingestData_def emit_def deferred_def Let_def ingestOptions_def
        List.map_filter_simps
      split: option.splits sum.splits)

theorem ingestData_options_witness:
  "List.map_filter submission (fst (ingestData world_ok kcsb_tok)) =
     [(''./ingest.kql'', [DeleteSource, FlushImmediately, ReportResultToTable])]"
  using ingestData_options [of world_ok kcsb_tok]
  by (simp add: world_ok_def)

text \<open>
  C9: when writing \<open>ingest.kql\<close> fails, \<open>ingestData\<close> behaves as when the write succeeds:
  same events and same result. The write is followed by the log line and the submission
  of the path \<open>./ingest.kql\<close>.
\<close>
theorem ingestData_write_error_ignored:
  assumes "sdk_azkustoingest_New w kcsb ''ArcSqlTelemetry'' ''ravpateTable'' = None"
    and "sdk_os_WriteFile w ''ingest.kql'' (ingestQuery (sdk_time_Now w)) 420 = Some err"
  shows "ingestData w kcsb = ingestData (w\<lparr>sdk_os_WriteFile := (\<lambda>name data perm. None)\<rparr>) kcsb
       \<and> take 6 (drop 1 (fst (ingestData w kcsb))) =
           [Time_Now,
            Log_Println [Str ''Writing ingest query to ingest.kql...''],
            Log_Println [Str [CHR 0x09], Str (ingestQuery (sdk_time_Now w))],
            Os_WriteFile ''ingest.kql'' (ingestQuery (sdk_time_Now w)) 420,
            Log_Println [Str ''Running ingest query now...''],
            FromFile (Ingestion kcsb ''ArcSqlTelemetry'' ''ravpateTable'') ''./ingest.kql''
              [DeleteSource, FlushImmediately, ReportResultToTable]]"
  using assms
  by (auto simp: ingestData_def emit_def deferred_def Let_def ingestOptions_def
      split: option.splits sum.splits)

theorem ingestData_write_error_ignored_witness:
  "sdk_os_WriteFile world_write_fails ''ingest.kql''
     (ingestQuery (sdk_time_Now world_write_fails)) 420 = Some err_sdk
   \<and> ingestData world_write_fails kcsb_tok = ingestData world_ok kcsb_tok
   \<and> snd (ingestData world_write_fails kcsb_tok) = None"
proof -
  have a: "sdk_azkustoingest_New world_write_fails kcsb_tok ''ArcSqlTelemetry''
      ''ravpateTable'' = None"
    by (simp add: world_write_fails_def world_ok_def)
  have b: "sdk_os_WriteFile world_write_fails ''ingest.kql''
      (ingestQuery (sdk_time_Now world_write_fails)) 420 = Some err_sdk"
    by (simp add: world_write_fails_def)
  have c: "world_write_fails\<lparr>sdk_os_WriteFile := (\<lambda>name data perm. None)\<rparr> = world_ok"
    by (simp add: world_write_fails_def world_ok_def)
  have d: "snd (ingestData world_ok kcsb_tok) = None"
    by (simp add: ingestData_def world_ok_def emit_def deferred_def Let_def)
  show ?thesis
    using ingestData_write_error_ignored [OF a b] b d unfolding c by simp
qed

section \<open>Query\<close>

lemma getData_rows_append:
  "\<forall>r\<in>set pre. RowErr r = None \<Longrightarrow>
   getData_rows (pre @ rest) =
     emit (concat (map (\<lambda>r. [Recv_Row r, Log_Println [RowArg (Row r)]]) pre))
       (getData_rows rest)"
  by (induction pre) (auto simp: emit_def)

lemma getData_rows_no_close: "Dataset_Close \<notin> set (fst (getData_rows rows))"
  by (induction rows) (auto simp: emit_def split: option.splits)

lemma received_row_pre:
  "List.map_filter received_row
     (concat (map (\<lambda>r. [Recv_Row r, Log_Println [RowArg (Row r)]]) pre)) = pre"
  by (induction pre) (auto simp: List.map_filter_simps)

lemma logged_row_pre:
  "List.map_filter logged_row
     (concat (map (\<lambda>r. [Recv_Row r, Log_Println [RowArg (Row r)]]) pre)) = map Row pre"
  by (induction pre) (auto simp: List.map_filter_simps)

text \<open>
  C4: when the primary table delivers the rows \<open>pre\<close> without error, then a row \<open>bad\<close>
  with an error, then \<open>post\<close>, \<open>getData\<close> returns an error that wraps the error of \<open>bad\<close>;
  the values it has received from the channel are \<open>pre\<close> and \<open>bad\<close>, in this order, and
  nothing of \<open>post\<close>; the rows it has logged are those of \<open>pre\<close>, in the order delivered.
\<close>
theorem getData_stops_at_row_error:
  assumes "sdk_IterativeQuery w client ''ArcSqlTelemetry''
             ''ravpateTable | order by Timestamp desc | take 5''
           = Inr (Dataset (TableResult None (pre @ bad # post)))"
    and "\<forall>r\<in>set pre. RowErr r = None"
    and "RowErr bad = Some err"
  shows "snd (getData w client) =
           Some (WrapError (''error getting row result: '' @ Error err) err)
       \<and> List.map_filter received_row (fst (getData w client)) = pre @ [bad]
       \<and> List.map_filter logged_row (fst (getData w client)) = map Row pre"
proof -
  have rows: "getData_rows (pre @ bad # post) =
      (concat (map (\<lambda>r. [Recv_Row r, Log_Println [RowArg (Row r)]]) pre) @ [Recv_Row bad],
       Some (WrapError (''error getting row result: '' @ Error err) err))"
    using assms(2,3) by (simp add: getData_rows_append emit_def Errorf_w_def)
  show ?thesis
    using assms(1)
    by (simp add: getData_def emit_def deferred_def Let_def rows map_filter_append
        received_row_pre logged_row_pre List.map_filter_simps)
qed

theorem getData_stops_at_row_error_witness:
  "snd (getData world_row_fails (Client kcsb_tok)) =
      Some (WrapError ''error getting row result: boom'' (ErrorString ''boom''))
   \<and> List.map_filter received_row (fst (getData world_row_fails (Client kcsb_tok))) =
      [RowResult None row_new, RowResult (Some (ErrorString ''boom'')) []]
   \<and> List.map_filter logged_row (fst (getData world_row_fails (Client kcsb_tok))) = [row_new]"
  using getData_stops_at_row_error [of world_row_fails "Client kcsb_tok"
      "[RowResult None row_new]" "RowResult (Some err_sdk) []" "[RowResult None row_old]" err_sdk]
  by (simp add: world_row_fails_def world_ok_def err_sdk_def)

section \<open>Scoped handles\<close>

text \<open>
  C5: in every run of \<open>ingestData\<close> the ingestion client is closed once when it was
  constructed (and never otherwise), and the close is the last event of the call; in
  every run of \<open>getData\<close> the dataset is closed once when the query returned one (and never
  otherwise), and the close is the last event of the call. This holds whatever the later
  calls answer, so on each error path too.
\<close>
theorem handles_released_once:
  "count_list (fst (ingestData w kcsb)) Ingestor_Close =
     (if sdk_azkustoingest_New w kcsb ''ArcSqlTelemetry'' ''ravpateTable'' = None then 1 else 0)
   \<and> (sdk_azkustoingest_New w kcsb ''ArcSqlTelemetry'' ''ravpateTable'' = None \<longrightarrow>
        last (fst (ingestData w kcsb)) = Ingestor_Close)
   \<and> count_list (fst (getData w client)) Dataset_Close =
     (if isl (sdk_IterativeQuery w client ''ArcSqlTelemetry''
                ''ravpateTable | order by Timestamp desc | take 5'') then 0 else 1)
   \<and> (\<not> isl (sdk_IterativeQuery w client ''ArcSqlTelemetry''
                ''ravpateTable | order by Timestamp desc | take 5'') \<longrightarrow>
        last (fst (getData w client)) = Dataset_Close)"
proof -
  have "count_list (fst (getData_rows rows)) Dataset_Close = 0" for rows
    using getData_rows_no_close [of rows] by (simp add: count_list_0_iff)
  then show ?thesis
    by (auto simp: ingestData_def getData_def emit_def deferred_def Let_def
        split: option.splits sum.splits)
qed

theorem handles_released_once_witness:
  "snd (ingestData world_ingest_rejected kcsb_tok) \<noteq> None
   \<and> count_list (fst (ingestData world_ingest_rejected kcsb_tok)) Ingestor_Close = 1
   \<and> last (fst (ingestData world_ingest_rejected kcsb_tok)) = Ingestor_Close
   \<and> snd (getData world_row_fails (Client kcsb_tok)) \<noteq> None
   \<and> count_list (fst (getData world_row_fails (Client kcsb_tok))) Dataset_Close = 1
   \<and> last (fst (getData world_row_fails (Client kcsb_tok))) = Dataset_Close"
proof -
  have a: "snd (ingestData world_ingest_rejected kcsb_tok) \<noteq> None"
    by (simp add: ingestData_def world_ingest_rejected_def world_ok_def emit_def deferred_def
        Let_def)
  have b: "snd (getData world_row_fails (Client kcsb_tok)) \<noteq> None"
    by (simp add: getData_def world_row_fails_def world_ok_def emit_def deferred_def Let_def)
  have c: "sdk_azkustoingest_New world_ingest_rejected kcsb_tok ''ArcSqlTelemetry''
      ''ravpateTable'' = None"
    by (simp add: world_ingest_rejected_def world_ok_def)
  have d: "\<not> isl (sdk_IterativeQuery world_row_fails (Client kcsb_tok) ''ArcSqlTelemetry''
      ''ravpateTable | order by Timestamp desc | take 5'')"
    by (simp add: world_row_fails_def)
  show ?thesis
    using handles_released_once [of world_ingest_rejected kcsb_tok "Client kcsb_tok"]
      handles_released_once [of world_row_fails kcsb_tok "Client kcsb_tok"] a b c d
    by simp
qed

section \<open>The run\<close>








lemma calls_simps [simp]:
  "calls [] = []"
  "calls (ev # t) = (if is_log ev then calls t else ev # calls t)"
  "calls (t @ u) = calls t @ calls u"
  by (simp_all add: calls_def)








end
